theory Spec2Isabelle
  imports Complex_Main "HOL-Library.Multiset" "HOL-Library.Sublist"
begin

section \<open>JavaScript values used by the geocoding service\<close>

subsection \<open>Numbers\<close>

text \<open>
  A JavaScript number is modelled as a real, one of the two infinities, or NaN. The only
  operations \<^verbatim>\<open>geocoding.ts\<close> applies to numbers are \<^verbatim>\<open>isNaN\<close>,
  \<^verbatim>\<open><\<close> and \<^verbatim>\<open>></\<close>; a comparison with NaN on either side is false.
  Rounding to the nearest double is not modelled: a finite number is its exact value.
\<close>

datatype jsnum = NaN | NegInf | Fin real | PosInf

fun js_lt :: "jsnum \<Rightarrow> jsnum \<Rightarrow> bool" where
  "js_lt NaN _ = False"
| "js_lt _ NaN = False"
| "js_lt PosInf _ = False"
| "js_lt _ NegInf = False"
| "js_lt NegInf _ = True"
| "js_lt (Fin a) (Fin b) = (a < b)"
| "js_lt (Fin a) PosInf = True"

definition js_gt :: "jsnum \<Rightarrow> jsnum \<Rightarrow> bool" where
  "js_gt a b = js_lt b a"

definition isNaN :: "jsnum \<Rightarrow> bool" where
  "isNaN x = (case x of NaN \<Rightarrow> True | _ \<Rightarrow> False)"

fun js_neg :: "jsnum \<Rightarrow> jsnum" where
  "js_neg NaN = NaN"
| "js_neg NegInf = PosInf"
| "js_neg (Fin a) = Fin (- a)"
| "js_neg PosInf = NegInf"

subsection \<open>parseFloat\<close>

text \<open>
  \<^verbatim>\<open>parseFloat\<close> skips leading white space and reads the longest prefix that is a
  decimal literal: an optional sign, then \<^verbatim>\<open>Infinity\<close>, or digits with an optional
  fraction and an optional exponent. Without such a prefix the result is NaN. Whatever
  follows the prefix is ignored. Strings are byte strings here, so the white space
  skipped is the ASCII white space; and a literal too large for a double, which
  JavaScript reads as an infinity, is read here as its exact value.
\<close>

definition is_digit :: "char \<Rightarrow> bool" where
  "is_digit c = (48 \<le> (of_char c :: nat) \<and> (of_char c :: nat) \<le> 57)"

definition is_space :: "char \<Rightarrow> bool" where
  "is_space c = ((of_char c :: nat) \<in> {9, 10, 11, 12, 13, 32})"

definition digits_value :: "string \<Rightarrow> nat" where
  "digits_value ds = foldl (\<lambda>acc c. 10 * acc + (of_char c - 48)) 0 ds"

definition exponent_part :: "string \<Rightarrow> int" where
  "exponent_part s =
     (case s of
        [] \<Rightarrow> 0
      | e # r \<Rightarrow>
          if e = CHR ''e'' \<or> e = CHR ''E'' then
            (case r of
               [] \<Rightarrow> 0
             | g # r' \<Rightarrow>
                 if g = CHR ''-'' then
                   (if takeWhile is_digit r' = [] then 0
                    else - int (digits_value (takeWhile is_digit r')))
                 else if g = CHR ''+'' then int (digits_value (takeWhile is_digit r'))
                 else int (digits_value (takeWhile is_digit r)))
          else 0)"

definition scale10 :: "real \<Rightarrow> int \<Rightarrow> real" where
  "scale10 x e = (if 0 \<le> e then x * 10 ^ nat e else x / 10 ^ nat (- e))"

definition unsigned_literal :: "string \<Rightarrow> jsnum" where
  "unsigned_literal s =
     (if take 8 s = ''Infinity'' then PosInf
      else
        let ip = takeWhile is_digit s;
            r1 = dropWhile is_digit s;
            has_dot = (case r1 of [] \<Rightarrow> False | c # _ \<Rightarrow> c = CHR ''.'');
            fp = (if has_dot then takeWhile is_digit (tl r1) else []);
            r2 = (if has_dot then dropWhile is_digit (tl r1) else r1)
        in if ip = [] \<and> fp = [] then NaN
           else Fin (scale10
                  (real (digits_value ip) + real (digits_value fp) / 10 ^ length fp)
                  (exponent_part r2)))"

definition parseFloat :: "string \<Rightarrow> jsnum" where
  "parseFloat str =
     (let s = dropWhile is_space str in
      case s of
        [] \<Rightarrow> NaN
      | c # r \<Rightarrow>
          if c = CHR ''-'' then js_neg (unsigned_literal r)
          else if c = CHR ''+'' then unsigned_literal r
          else unsigned_literal s)"

subsection \<open>Number to string, for natural numbers\<close>

fun digit_char :: "nat \<Rightarrow> char" where
  "digit_char n = ''0123456789'' ! (n mod 10)"

fun String_nat :: "nat \<Rightarrow> string" where
  "String_nat n = (if n < 10 then [digit_char n] else String_nat (n div 10) @ [digit_char n])"

declare String_nat.simps [simp del]

subsection \<open>Thrown values\<close>

text \<open>
  \<^verbatim>\<open>BmltErrorType\<close> and \<^verbatim>\<open>BmltQueryError.isRetryable\<close> of
  \<^verbatim>\<open>utils/errors.ts\<close>.
\<close>

datatype BmltErrorType =
    API_ERROR | NETWORK_ERROR | VALIDATION_ERROR | GEOCODING_ERROR | RATE_LIMIT_ERROR
  | TIMEOUT_ERROR | AUTHENTICATION_ERROR | SERVER_ERROR | CLIENT_ERROR | CONFIGURATION_ERROR

definition isRetryable :: "BmltErrorType \<Rightarrow> bool" where
  "isRetryable t =
     (t \<in> set [NETWORK_ERROR, TIMEOUT_ERROR, RATE_LIMIT_ERROR, SERVER_ERROR])"

text \<open>
  A thrown value carries the class it was constructed with (what \<^verbatim>\<open>instanceof\<close>
  tests), and the \<^verbatim>\<open>name\<close>, \<^verbatim>\<open>message\<close> and \<^verbatim>\<open>statusCode\<close>
  properties that the service reads and assigns. A \<^verbatim>\<open>BmltQueryError\<close> also has
  its \<^verbatim>\<open>type\<close>.
\<close>

datatype js_class =
    PlainError | TypeError | SyntaxError | DOMException | BmltQueryError BmltErrorType
  | NotAnError

record js_error =
  cls :: js_class
  name :: string
  message :: string
  statusCode :: "nat option"

definition instanceof_Error :: "js_error \<Rightarrow> bool" where
  "instanceof_Error e = (case cls e of NotAnError \<Rightarrow> False | _ \<Rightarrow> True)"

definition instanceof_TypeError :: "js_error \<Rightarrow> bool" where
  "instanceof_TypeError e = (case cls e of TypeError \<Rightarrow> True | _ \<Rightarrow> False)"

definition new_Error :: "string \<Rightarrow> js_error" where
  "new_Error msg = \<lparr>cls = PlainError, name = ''Error'', message = msg, statusCode = None\<rparr>"

definition new_BmltQueryError :: "BmltErrorType \<Rightarrow> string \<Rightarrow> js_error" where
  "new_BmltQueryError t msg =
     \<lparr>cls = BmltQueryError t, name = ''BmltQueryError'', message = msg, statusCode = None\<rparr>"

text \<open>
  The rejection of \<^verbatim>\<open>fetch\<close> when its signal is aborted: a
  \<^verbatim>\<open>DOMException\<close> named \<^verbatim>\<open>AbortError\<close>.
\<close>

definition AbortError :: js_error where
  "AbortError =
     \<lparr>cls = DOMException, name = ''AbortError'', message = ''This operation was aborted'',
      statusCode = None\<rparr>"

section \<open>The transport: fetchWithTimeout\<close>

text \<open>
  What the network does to one request is an input of the model: the timer fires first
  and aborts the request (\<open>TimedOut\<close>), \<^verbatim>\<open>fetch\<close> rejects by itself with some
  thrown value, or a response arrives with a status, a status text and a body whose
  \<^verbatim>\<open>json()\<close> either yields a payload or throws. The URL, the header and the length
  of the timeout do not enter the result other than through this outcome, so they are
  not parameters.
\<close>

datatype 'p fetch_outcome =
    TimedOut
  | FetchRejects js_error
  | Responded nat string "js_error + 'p"

definition ok :: "nat \<Rightarrow> bool" where
  "ok status = (200 \<le> status \<and> status \<le> 299)"

text \<open>The \<^verbatim>\<open>try\<close> block: what it returns, or what is thrown inside it.\<close>

definition try_block :: "'p fetch_outcome \<Rightarrow> js_error + 'p" where
  "try_block ev =
     (case ev of
        TimedOut \<Rightarrow> Inl AbortError
      | FetchRejects e \<Rightarrow> Inl e
      | Responded status statusText body \<Rightarrow>
          if \<not> ok status then
            (if status = 429 then
               Inl ((new_Error ''Rate limit exceeded for geocoding service'')
                      \<lparr>name := ''RateLimitError'', statusCode := Some 429\<rparr>)
             else if status \<ge> 400 then
               Inl ((new_Error
                      (''Geocoding service error: '' @ String_nat status @ '' '' @ statusText))
                      \<lparr>name := ''GeocodingError'', statusCode := Some status\<rparr>)
             else body)
          else body)"

text \<open>The \<^verbatim>\<open>catch\<close> block: the value it throws for a caught value.\<close>

definition catch_block :: "js_error \<Rightarrow> js_error" where
  "catch_block e =
     (if instanceof_Error e \<and> name e = ''AbortError'' then
        (new_Error ''Request timeout during geocoding'') \<lparr>name := ''TimeoutError''\<rparr>
      else if instanceof_TypeError e then
        (new_Error ''Network error occurred during geocoding'') \<lparr>name := ''NetworkError''\<rparr>
      else e)"

definition fetchWithTimeout_outcome :: "'p fetch_outcome \<Rightarrow> js_error + 'p" where
  "fetchWithTimeout_outcome ev =
     (case try_block ev of Inl e \<Rightarrow> Inl (catch_block e) | Inr data \<Rightarrow> Inr data)"

text \<open>
  Timers are the state of the call: \<^verbatim>\<open>setTimeout\<close> hands out a fresh id and makes
  the timer active, a timer that fires is no longer active, and \<^verbatim>\<open>clearTimeout\<close>
  deactivates a timer; the model also records every id \<^verbatim>\<open>clearTimeout\<close> was
  called with.
\<close>

record timers =
  next_id :: nat
  active :: "nat set"
  cleared :: "nat list"

definition setTimeout :: "timers \<Rightarrow> nat \<times> timers" where
  "setTimeout st =
     (next_id st, st\<lparr>next_id := Suc (next_id st), active := insert (next_id st) (active st)\<rparr>)"

definition fire :: "nat \<Rightarrow> timers \<Rightarrow> timers" where
  "fire i st = st\<lparr>active := active st - {i}\<rparr>"

definition clearTimeout :: "nat \<Rightarrow> timers \<Rightarrow> timers" where
  "clearTimeout i st = st\<lparr>active := active st - {i}, cleared := cleared st @ [i]\<rparr>"

definition fetchWithTimeout :: "timers \<Rightarrow> 'p fetch_outcome \<Rightarrow> (js_error + 'p) \<times> timers" where
  "fetchWithTimeout st ev =
     (let (timeoutId, st1) = setTimeout st;
          st2 = (case ev of TimedOut \<Rightarrow> fire timeoutId st1 | _ \<Rightarrow> st1);
          settled = fetchWithTimeout_outcome ev
      in (settled, clearTimeout timeoutId st2))"

section \<open>Provider payloads and results\<close>

text \<open>
  \<^verbatim>\<open>NominatimResponse\<close> of \<^verbatim>\<open>geocoding.ts\<close> and \<^verbatim>\<open>Coordinates\<close>,
  \<^verbatim>\<open>GeocodeResult\<close> of \<^verbatim>\<open>types\<close>. An optional property is an option. The
  provider's address and the result's address share field names; they are told apart by
  the record name.
\<close>

record NominatimAddress =
  house_number :: "string option"
  road :: "string option"
  neighbourhood :: "string option"
  suburb :: "string option"
  city :: "string option"
  town :: "string option"
  village :: "string option"
  county :: "string option"
  state :: "string option"
  postcode :: "string option"
  country :: "string option"
  country_code :: "string option"

record NominatimResponse =
  place_id :: int
  licence :: string
  osm_type :: string
  osm_id :: int
  lat :: string
  lon :: string
  display_name :: string
  address :: "NominatimAddress option"
  importance :: "jsnum option"
  boundingbox :: "string list"

record Coordinates =
  latitude :: jsnum
  longitude :: jsnum

record GeocodeAddress =
  house_number :: "string option"
  road :: "string option"
  neighbourhood :: "string option"
  suburb :: "string option"
  city :: "string option"
  county :: "string option"
  state :: "string option"
  postcode :: "string option"
  country :: "string option"

record GeocodeResult =
  coordinates :: Coordinates
  display_name :: string
  confidence :: "jsnum option"
  address :: "GeocodeAddress option"

text \<open>
  JavaScript's \<^verbatim>\<open>a || b\<close> on optional strings: \<^verbatim>\<open>a\<close> when it is truthy
  (defined and not the empty string), otherwise \<^verbatim>\<open>b\<close>.
\<close>

definition truthy :: "string option \<Rightarrow> bool" where
  "truthy a = (case a of None \<Rightarrow> False | Some s \<Rightarrow> s \<noteq> [])"

definition js_or :: "string option \<Rightarrow> string option \<Rightarrow> string option" where
  "js_or a b = (if truthy a then a else b)"

text \<open>The address mapping that \<^verbatim>\<open>geocode\<close> and \<^verbatim>\<open>reverseGeocode\<close> share.\<close>

definition map_address :: "NominatimAddress \<Rightarrow> GeocodeAddress" where
  "map_address a =
     \<lparr>GeocodeAddress.house_number = NominatimAddress.house_number a,
      road = NominatimAddress.road a,
      neighbourhood = NominatimAddress.neighbourhood a,
      suburb = NominatimAddress.suburb a,
      city = js_or (js_or (NominatimAddress.city a) (town a)) (village a),
      county = NominatimAddress.county a,
      state = NominatimAddress.state a,
      postcode = NominatimAddress.postcode a,
      country = NominatimAddress.country a\<rparr>"

definition build_result :: "Coordinates \<Rightarrow> NominatimResponse \<Rightarrow> GeocodeResult" where
  "build_result c result =
     \<lparr>coordinates = c,
      display_name = NominatimResponse.display_name result,
      confidence = importance result,
      address = map_option map_address (NominatimResponse.address result)\<rparr>"

section \<open>One attempt of geocode and of reverseGeocode\<close>

text \<open>
  The function handed to \<^verbatim>\<open>pRetry\<close> by \<^verbatim>\<open>geocode\<close>. The search payload is an
  array of places, or absent (\<open>None\<close>: a falsy body such as \<^verbatim>\<open>null\<close>). The inner
  \<^verbatim>\<open>try\<close>/\<^verbatim>\<open>catch\<close> rethrows what it catches, so it does not appear.
\<close>

definition geocode_attempt ::
  "string \<Rightarrow> NominatimResponse list option fetch_outcome \<Rightarrow> js_error + GeocodeResult" where
  "geocode_attempt addr ev =
     (case fetchWithTimeout_outcome ev of
        Inl e \<Rightarrow> Inl e
      | Inr response \<Rightarrow>
          (case response of
             None \<Rightarrow>
               Inl (new_BmltQueryError GEOCODING_ERROR (''No results found for address: '' @ addr))
           | Some [] \<Rightarrow>
               Inl (new_BmltQueryError GEOCODING_ERROR (''No results found for address: '' @ addr))
           | Some (result # _) \<Rightarrow>
               let c = \<lparr>latitude = parseFloat (lat result), longitude = parseFloat (lon result)\<rparr>
               in if isNaN (latitude c) \<or> isNaN (longitude c) then
                    Inl ((new_Error ''Invalid coordinates received from geocoding service'')
                           \<lparr>name := ''GeocodingError''\<rparr>)
                  else if js_lt (latitude c) (Fin (- 90)) \<or> js_gt (latitude c) (Fin 90)
                          \<or> js_lt (longitude c) (Fin (- 180)) \<or> js_gt (longitude c) (Fin 180) then
                    Inl ((new_Error ''Coordinates out of valid range'')
                           \<lparr>name := ''GeocodingError''\<rparr>)
                  else Inr (build_result c result)))"

text \<open>
  The function handed to \<^verbatim>\<open>pRetry\<close> by \<^verbatim>\<open>reverseGeocode\<close>. The payload is one
  place, or absent. \<open>render\<close> is the string a template literal makes of a number; it only
  enters the message of the no-results error.
\<close>

definition reverseGeocode_attempt ::
  "(jsnum \<Rightarrow> string) \<Rightarrow> Coordinates \<Rightarrow> NominatimResponse option fetch_outcome
     \<Rightarrow> js_error + GeocodeResult" where
  "reverseGeocode_attempt render coords ev =
     (case fetchWithTimeout_outcome ev of
        Inl e \<Rightarrow> Inl e
      | Inr response \<Rightarrow>
          (case response of
             None \<Rightarrow>
               Inl ((new_Error (''No results found for coordinates: '' @ render (latitude coords)
                                  @ '', '' @ render (longitude coords)))
                      \<lparr>name := ''GeocodingError''\<rparr>)
           | Some result \<Rightarrow>
               Inr (build_result
                      \<lparr>latitude = parseFloat (lat result), longitude = parseFloat (lon result)\<rparr>
                      result)))"

section \<open>The retry loop and the queue\<close>

text \<open>
  What one call does, as far as a caller or an observer can tell: how it settles, how
  many attempts ran, the delays waited between them, and the lines written to the console.
\<close>

record 'a run =
  outcome :: "js_error + 'a"
  attempts :: nat
  delays :: "nat list"
  console :: "string list"

record retry_options =
  retries :: nat
  factor :: nat
  minTimeout :: nat
  maxTimeout :: nat
  onFailedAttempt :: "(js_error \<Rightarrow> nat \<Rightarrow> nat \<Rightarrow> string) option"

text \<open>
  The package \<^verbatim>\<open>p-retry\<close>, which \<^verbatim>\<open>geocoding.ts\<close> imports, is not part of
  the sources. Its loop is modelled from section 4.3 of the specification, with the
  options that \<^verbatim>\<open>geocode\<close> and \<^verbatim>\<open>reverseGeocode\<close> pass to it. Attempts are
  numbered from 1, and the operation is given the number of the attempt.
\<close>

text \<open>
  Modelled from the spec: the delay of \<^verbatim>\<open>p-retry\<close> before retry \<open>k\<close>,
  \<open>min (D_min * F ^ (k - 1)) D_max\<close>.
\<close>

definition retry_delay :: "retry_options \<Rightarrow> nat \<Rightarrow> nat" where
  "retry_delay opts k = min (minTimeout opts * factor opts ^ (k - 1)) (maxTimeout opts)"

text \<open>
  Modelled from the spec: the observability hook of \<^verbatim>\<open>p-retry\<close>, invoked with the
  error, the number of the attempt and the number of retries left; what it writes to the
  console is the line the caller's \<^verbatim>\<open>onFailedAttempt\<close> makes of them.
\<close>

definition hook_lines :: "retry_options \<Rightarrow> js_error \<Rightarrow> nat \<Rightarrow> nat \<Rightarrow> string list" where
  "hook_lines opts e attemptNumber retriesLeft =
     (case onFailedAttempt opts of None \<Rightarrow> [] | Some h \<Rightarrow> [h e attemptNumber retriesLeft])"

text \<open>
  Modelled from the spec: the attempt loop of \<^verbatim>\<open>p-retry\<close>. It executes the
  operation and returns at once on success; on failure it raises that failure when the
  retries are used up, and otherwise invokes the hook, waits the delay and tries again.
\<close>

fun pRetry_loop :: "retry_options \<Rightarrow> (nat \<Rightarrow> js_error + 'a) \<Rightarrow> nat \<Rightarrow> nat \<Rightarrow> 'a run" where
  "pRetry_loop opts input n 0 =
     \<lparr>outcome = input n, attempts = n, delays = [], console = []\<rparr>"
| "pRetry_loop opts input n (Suc left) =
     (case input n of
        Inr v \<Rightarrow> \<lparr>outcome = Inr v, attempts = n, delays = [], console = []\<rparr>
      | Inl e \<Rightarrow>
          let rest = pRetry_loop opts input (Suc n) left
          in rest\<lparr>delays := retry_delay opts n # delays rest,
                  console := hook_lines opts e n (Suc left) @ console rest\<rparr>)"

text \<open>
  Modelled from the spec: \<^verbatim>\<open>pRetry\<close> of \<^verbatim>\<open>p-retry\<close>, the loop started at
  attempt 1 with all the retries left.
\<close>

definition pRetry :: "(nat \<Rightarrow> js_error + 'a) \<Rightarrow> retry_options \<Rightarrow> 'a run" where
  "pRetry input opts = pRetry_loop opts input 1 (retries opts)"

text \<open>
  Modelled from the spec: \<^verbatim>\<open>PQueue.add\<close> of the package \<^verbatim>\<open>p-queue\<close>, whose
  code is not part of the sources. Section 4.1 of the specification: the handle settles
  as the task itself settles; the queue only delays when the task starts.
\<close>

definition queue_add :: "'a run \<Rightarrow> 'a run" where
  "queue_add task = task"

section \<open>The public operations\<close>

text \<open>
  The options a caller may pass, and the defaults the constructor fixes. Of the options
  only \<^verbatim>\<open>retryCount\<close> decides how a call runs; \<^verbatim>\<open>timeout\<close> and
  \<^verbatim>\<open>userAgent\<close> go to the transport, and the region bias goes into the URL.
\<close>

record GeocodeOptions =
  retryCount :: "nat option"
  timeout :: "nat option"
  userAgent :: "string option"

record DefaultOptions =
  retryCount :: nat
  timeout :: nat
  userAgent :: string

record GeocodingService =
  defaultOptions :: DefaultOptions

definition constructor :: "GeocodeOptions \<Rightarrow> GeocodingService" where
  "constructor options =
     \<lparr>defaultOptions =
        \<lparr>DefaultOptions.retryCount =
           (case GeocodeOptions.retryCount options of None \<Rightarrow> 3 | Some r \<Rightarrow> r),
         timeout = (case GeocodeOptions.timeout options of None \<Rightarrow> 10000 | Some t \<Rightarrow> t),
         userAgent =
           (case GeocodeOptions.userAgent options of
              None \<Rightarrow> ''bmlt-query-client/1.0.0'' | Some u \<Rightarrow> u)\<rparr>\<rparr>"

text \<open>\<^verbatim>\<open>{ ...this.defaultOptions, ...options }\<close>\<close>

definition merge_options :: "DefaultOptions \<Rightarrow> GeocodeOptions \<Rightarrow> DefaultOptions" where
  "merge_options d options =
     \<lparr>DefaultOptions.retryCount =
        (case GeocodeOptions.retryCount options of None \<Rightarrow> DefaultOptions.retryCount d | Some r \<Rightarrow> r),
      timeout =
        (case GeocodeOptions.timeout options of None \<Rightarrow> DefaultOptions.timeout d | Some t \<Rightarrow> t),
      userAgent =
        (case GeocodeOptions.userAgent options of
           None \<Rightarrow> DefaultOptions.userAgent d | Some u \<Rightarrow> u)\<rparr>"

definition attempt_warning :: "js_error \<Rightarrow> nat \<Rightarrow> nat \<Rightarrow> string" where
  "attempt_warning e attemptNumber retriesLeft =
     ''Geocoding attempt '' @ String_nat attemptNumber @ '' failed. ''
       @ String_nat retriesLeft @ '' retries left. Error: '' @ message e"

text \<open>
  \<open>env n\<close> is what the network does to the request of attempt \<open>n\<close> of this call.
\<close>

definition geocode ::
  "GeocodingService \<Rightarrow> string \<Rightarrow> GeocodeOptions
     \<Rightarrow> (nat \<Rightarrow> NominatimResponse list option fetch_outcome) \<Rightarrow> GeocodeResult run" where
  "geocode svc addr options env =
     (let geocodeOptions = merge_options (defaultOptions svc) options
      in queue_add
           (pRetry (\<lambda>n. geocode_attempt addr (env n))
              \<lparr>retries = DefaultOptions.retryCount geocodeOptions, factor = 2,
               minTimeout = 1000, maxTimeout = 10000,
               onFailedAttempt = Some attempt_warning\<rparr>))"

definition reverseGeocode ::
  "GeocodingService \<Rightarrow> (jsnum \<Rightarrow> string) \<Rightarrow> Coordinates \<Rightarrow> GeocodeOptions
     \<Rightarrow> (nat \<Rightarrow> NominatimResponse option fetch_outcome) \<Rightarrow> GeocodeResult run" where
  "reverseGeocode svc render coords options env =
     (let geocodeOptions = merge_options (defaultOptions svc) options
      in queue_add
           (pRetry (\<lambda>n. reverseGeocode_attempt render coords (env n))
              \<lparr>retries = DefaultOptions.retryCount geocodeOptions, factor = 2,
               minTimeout = 1000, maxTimeout = 10000,
               onFailedAttempt = None\<rparr>))"

text \<open>
  \<^verbatim>\<open>batchGeocode\<close>. Each address gets its own call of \<^verbatim>\<open>geocode\<close>, the call at
  position \<open>i\<close> of the list meeting the network \<open>env i\<close>. The \<^verbatim>\<open>catch\<close> handler
  turns a rejection into \<^verbatim>\<open>null\<close> after a warning; \<^verbatim>\<open>Promise.all\<close> resolves
  with the values in the order of its argument, or rejects when one of the promises does;
  the filter drops the nulls. The console lines are given call by call: between
  concurrent calls their order in time is not fixed.
\<close>

definition failure_warning :: "string \<Rightarrow> js_error \<Rightarrow> string" where
  "failure_warning addr e =
     ''Failed to geocode address '' @ [CHR 0x22] @ addr @ [CHR 0x22] @ '': '' @ message e"

definition catch_null ::
  "string \<Rightarrow> GeocodeResult run \<Rightarrow> (js_error + GeocodeResult option) \<times> string list" where
  "catch_null addr r =
     (case outcome r of
        Inl e \<Rightarrow> (Inr None, console r @ [failure_warning addr e])
      | Inr v \<Rightarrow> (Inr (Some v), console r))"

fun Promise_all :: "(js_error + 'a) list \<Rightarrow> js_error + 'a list" where
  "Promise_all [] = Inr []"
| "Promise_all (p # ps) =
     (case p of
        Inl e \<Rightarrow> Inl e
      | Inr v \<Rightarrow> (case Promise_all ps of Inl e \<Rightarrow> Inl e | Inr vs \<Rightarrow> Inr (v # vs)))"

definition batchGeocode ::
  "GeocodingService \<Rightarrow> string list \<Rightarrow> GeocodeOptions
     \<Rightarrow> (nat \<Rightarrow> nat \<Rightarrow> NominatimResponse list option fetch_outcome)
     \<Rightarrow> (js_error + GeocodeResult list) \<times> string list" where
  "batchGeocode svc addresses options env =
     (let promises =
            map (\<lambda>(i, a). catch_null a (geocode svc a options (env i))) (enumerate 0 addresses)
      in (case Promise_all (map fst promises) of
            Inl e \<Rightarrow> Inl e
          | Inr results \<Rightarrow> Inr (map the (filter (\<lambda>result. result \<noteq> None) results)),
          concat (map snd promises)))"

section \<open>Notions used to state the properties\<close>

text \<open>
  The outcomes of the individual \<^verbatim>\<open>geocode\<close> calls of a batch, in the order of
  the addresses.
\<close>

definition settled_calls ::
  "GeocodingService \<Rightarrow> string list \<Rightarrow> GeocodeOptions
     \<Rightarrow> (nat \<Rightarrow> nat \<Rightarrow> NominatimResponse list option fetch_outcome)
     \<Rightarrow> (js_error + GeocodeResult) list" where
  "settled_calls svc addresses options env =
     map (\<lambda>(i, a). outcome (geocode svc a options (env i))) (enumerate 0 addresses)"

text \<open>
  The city as the specification words it: the provider's city when present, otherwise
  the town, otherwise the village.
\<close>

definition city_as_claimed :: "NominatimAddress \<Rightarrow> string option" where
  "city_as_claimed a =
     (case NominatimAddress.city a of
        Some c \<Rightarrow> Some c
      | None \<Rightarrow> (case town a of Some t \<Rightarrow> Some t | None \<Rightarrow> village a))"

text \<open>
  Two outcomes of an attempt that differ at most in the error: both fail, or both
  succeed with the same value.
\<close>

definition same_but_for_error :: "js_error + 'a \<Rightarrow> js_error + 'a \<Rightarrow> bool" where
  "same_but_for_error a b =
     (case a of
        Inl _ \<Rightarrow> (case b of Inl _ \<Rightarrow> True | Inr _ \<Rightarrow> False)
      | Inr v \<Rightarrow> (case b of Inl _ \<Rightarrow> False | Inr w \<Rightarrow> v = w))"

section \<open>Concrete inputs\<close>

definition no_options :: GeocodeOptions where
  "no_options = \<lparr>GeocodeOptions.retryCount = None, timeout = None, userAgent = None\<rparr>"

definition opts_retry :: "nat \<Rightarrow> GeocodeOptions" where
  "opts_retry R = \<lparr>GeocodeOptions.retryCount = Some R, timeout = None, userAgent = None\<rparr>"

definition origin :: Coordinates where
  "origin = \<lparr>latitude = Fin 0, longitude = Fin 0\<rparr>"

definition no_timers :: timers where
  "no_timers = \<lparr>next_id = 0, active = {}, cleared = []\<rparr>"

definition times_square :: NominatimResponse where
  "times_square =
     \<lparr>place_id = 1, licence = ''ODbL'', osm_type = ''way'', osm_id = 2,
      lat = ''40.7580'', lon = ''-73.9855'',
      display_name = ''Times Square, Manhattan, New York'',
      address = None, importance = None, boundingbox = []\<rparr>"

definition times_square_result :: GeocodeResult where
  "times_square_result =
     \<lparr>coordinates = \<lparr>latitude = Fin (4075800 / 100000), longitude = Fin (- (739855 / 10000))\<rparr>,
      display_name = ''Times Square, Manhattan, New York'',
      confidence = None, address = None\<rparr>"

text \<open>A place whose latitude is out of range and whose longitude is not a number.\<close>

definition off_the_map :: NominatimResponse where
  "off_the_map =
     \<lparr>place_id = 3, licence = ''ODbL'', osm_type = ''node'', osm_id = 4,
      lat = ''95'', lon = ''not-a-number'',
      display_name = ''Nowhere'',
      address = None, importance = None, boundingbox = []\<rparr>"

text \<open>A place whose city is the empty string and whose town is set.\<close>

definition springfield_address :: NominatimAddress where
  "springfield_address =
     \<lparr>NominatimAddress.house_number = None, road = None, neighbourhood = None, suburb = None,
      city = Some [], town = Some ''Springfield'', village = None, county = None,
      state = Some ''Illinois'', postcode = None, country = None, country_code = Some ''us''\<rparr>"

definition springfield :: NominatimResponse where
  "springfield =
     \<lparr>place_id = 5, licence = ''ODbL'', osm_type = ''relation'', osm_id = 6,
      lat = ''39.8'', lon = ''-89.6'',
      display_name = ''Springfield, Illinois'',
      address = Some springfield_address, importance = None, boundingbox = []\<rparr>"

definition springfield_result :: GeocodeResult where
  "springfield_result =
     \<lparr>coordinates = \<lparr>latitude = Fin (398 / 10), longitude = Fin (- (896 / 10))\<rparr>,
      display_name = ''Springfield, Illinois'',
      confidence = None,
      address = Some
        \<lparr>GeocodeAddress.house_number = None, road = None, neighbourhood = None, suburb = None,
         city = Some ''Springfield'', county = None, state = Some ''Illinois'',
         postcode = None, country = None\<rparr>\<rparr>"

text \<open>
  A network that answers the first request with an empty collection, the second with
  HTTP 404 and every later one with Times Square; and one for reverse lookups that
  answers the first request with no payload.
\<close>

definition flaky_network :: "nat \<Rightarrow> NominatimResponse list option fetch_outcome" where
  "flaky_network n =
     (if n = 1 then Responded 200 ''OK'' (Inr (Some []))
      else if n = 2 then Responded 404 ''Not Found'' (Inr None)
      else Responded 200 ''OK'' (Inr (Some [times_square])))"

definition flaky_reverse :: "nat \<Rightarrow> NominatimResponse option fetch_outcome" where
  "flaky_reverse n =
     (if n = 1 then Responded 200 ''OK'' (Inr None)
      else Responded 200 ''OK'' (Inr (Some times_square)))"

text \<open>
  Networks that fail where the flaky ones fail, but by a timeout and by HTTP 429.
\<close>

definition timeout_network :: "nat \<Rightarrow> NominatimResponse list option fetch_outcome" where
  "timeout_network n =
     (if n = 1 then TimedOut
      else if n = 2 then Responded 429 ''Too Many Requests'' (Inr None)
      else Responded 200 ''OK'' (Inr (Some [times_square])))"

definition timeout_reverse :: "nat \<Rightarrow> NominatimResponse option fetch_outcome" where
  "timeout_reverse n =
     (if n = 1 then TimedOut
      else Responded 200 ''OK'' (Inr (Some times_square)))"

text \<open>
  The network of a batch of two addresses: every request of the first call finds Times
  Square, every request of the second finds nothing.
\<close>

definition batch_network :: "nat \<Rightarrow> nat \<Rightarrow> NominatimResponse list option fetch_outcome" where
  "batch_network i n =
     (if i = 0 then Responded 200 ''OK'' (Inr (Some [times_square]))
      else Responded 200 ''OK'' (Inr (Some [])))"

section \<open>Evaluation facts\<close>

lemmas transport_defs =
  fetchWithTimeout_outcome_def try_block_def catch_block_def ok_def new_Error_def
  AbortError_def instanceof_Error_def instanceof_TypeError_def

lemmas parse_defs =
  parseFloat_def unsigned_literal_def is_digit_def is_space_def digits_value_def
  exponent_part_def scale10_def

lemma parse_times_square:
  "parseFloat ''40.7580'' = Fin (4075800 / 100000)"
  "parseFloat ''-73.9855'' = Fin (- (739855 / 10000))"
  by (simp_all add: parse_defs)

lemma parse_off_the_map:
  "parseFloat ''95'' = Fin 95"
  "parseFloat ''not-a-number'' = NaN"
  by (simp_all add: parse_defs)

lemma parse_springfield:
  "parseFloat ''39.8'' = Fin (398 / 10)"
  "parseFloat ''-89.6'' = Fin (- (896 / 10))"
  by (simp_all add: parse_defs)

lemma geocode_attempt_times_square:
  "geocode_attempt a (Responded 200 ''OK'' (Inr (Some [times_square]))) = Inr times_square_result"
  by (simp add: geocode_attempt_def transport_defs times_square_def times_square_result_def
      parse_times_square isNaN_def js_gt_def build_result_def Let_def)

lemma geocode_attempt_empty:
  "geocode_attempt a (Responded 200 ''OK'' (Inr (Some []))) =
     Inl (new_BmltQueryError GEOCODING_ERROR (''No results found for address: '' @ a))"
  by (simp add: geocode_attempt_def fetchWithTimeout_outcome_def try_block_def ok_def)

section \<open>The transport\<close>

text \<open>
  C7. Every call of \<^verbatim>\<open>fetchWithTimeout\<close> clears its timer, however it ends: whatever
  the network does, the timer the call created is not active afterwards, the only
  \<^verbatim>\<open>clearTimeout\<close> the call adds to the record is the one for that timer, and no
  other timer changes.
\<close>

theorem fetchWithTimeout_releases_timer:
  "next_id st \<notin> active (snd (fetchWithTimeout st ev))
   \<and> cleared (snd (fetchWithTimeout st ev)) = cleared st @ [next_id st]
   \<and> active (snd (fetchWithTimeout st ev)) = active st - {next_id st}"
  by (cases ev) (auto simp: fetchWithTimeout_def setTimeout_def fire_def clearTimeout_def)

text \<open>
  C3. How one HTTP attempt settles. A timeout rejects with an error named
  \<^verbatim>\<open>TimeoutError\<close>; a response with status 429 rejects with
  \<^verbatim>\<open>RateLimitError\<close> and status code 429; any other status from 400 on rejects with
  \<^verbatim>\<open>GeocodingError\<close>, the status code, and a message with the status and the
  status text; a \<^verbatim>\<open>TypeError\<close> from \<^verbatim>\<open>fetch\<close> rejects with
  \<^verbatim>\<open>NetworkError\<close>; any other thrown value, from \<^verbatim>\<open>fetch\<close> or from reading
  the body of a response below 400, is passed on unchanged; and a response with a status
  from 200 to 299 resolves with the parsed payload.
\<close>

theorem fetchWithTimeout_classifies:
  fixes st :: timers and body :: "js_error + 'p" and p :: 'p
  shows
  "fst (fetchWithTimeout st (TimedOut :: 'p fetch_outcome)) =
       Inl ((new_Error ''Request timeout during geocoding'') \<lparr>name := ''TimeoutError''\<rparr>)
   \<and> fst (fetchWithTimeout st (Responded 429 statusText body)) =
       Inl ((new_Error ''Rate limit exceeded for geocoding service'')
              \<lparr>name := ''RateLimitError'', statusCode := Some 429\<rparr>)
   \<and> (400 \<le> status \<and> status \<noteq> 429 \<longrightarrow>
        fst (fetchWithTimeout st (Responded status statusText body)) =
          Inl ((new_Error (''Geocoding service error: '' @ String_nat status @ '' '' @ statusText))
                 \<lparr>name := ''GeocodingError'', statusCode := Some status\<rparr>))
   \<and> (instanceof_TypeError e \<and> name e \<noteq> ''AbortError'' \<longrightarrow>
        fst (fetchWithTimeout st (FetchRejects e :: 'p fetch_outcome)) =
          Inl ((new_Error ''Network error occurred during geocoding'')
                 \<lparr>name := ''NetworkError''\<rparr>))
   \<and> (\<not> instanceof_TypeError e \<and> \<not> (instanceof_Error e \<and> name e = ''AbortError'') \<longrightarrow>
        fst (fetchWithTimeout st (FetchRejects e :: 'p fetch_outcome)) = Inl e
        \<and> (status < 400 \<longrightarrow>
             fst (fetchWithTimeout st (Responded status statusText (Inl e :: js_error + 'p)))
               = Inl e))
   \<and> (200 \<le> status \<and> status \<le> 299 \<longrightarrow>
        fst (fetchWithTimeout st (Responded status statusText (Inr p))) = Inr p)"
  by (auto simp: fetchWithTimeout_def setTimeout_def transport_defs)

theorem fetchWithTimeout_classifies_witness:
  "fst (fetchWithTimeout no_timers (Responded 503 ''Service Unavailable'' (Inr ()))) =
       Inl \<lparr>cls = PlainError, name = ''GeocodingError'',
            message = ''Geocoding service error: 503 Service Unavailable'',
            statusCode = Some 503\<rparr>
   \<and> fst (fetchWithTimeout no_timers
            (FetchRejects \<lparr>cls = TypeError, name = ''TypeError'', message = ''fetch failed'',
                           statusCode = None\<rparr> :: unit fetch_outcome)) =
       Inl \<lparr>cls = PlainError, name = ''NetworkError'',
            message = ''Network error occurred during geocoding'', statusCode = None\<rparr>
   \<and> fst (fetchWithTimeout no_timers
            (Responded 200 ''OK''
               (Inl \<lparr>cls = SyntaxError, name = ''SyntaxError'', message = ''Unexpected token'',
                     statusCode = None\<rparr> :: js_error + unit))) =
       Inl \<lparr>cls = SyntaxError, name = ''SyntaxError'', message = ''Unexpected token'',
            statusCode = None\<rparr>
   \<and> fst (fetchWithTimeout no_timers (Responded 200 ''OK'' (Inr ()))) = Inr ()"
proof -
  have s503: "String_nat 503 = ''503''"
    by (simp add: String_nat.simps)
  note server_error = fetchWithTimeout_classifies
    [where st = no_timers and status = 503 and statusText = "''Service Unavailable''"
       and body = "Inr ()" and p = "()"]
  note type_error = fetchWithTimeout_classifies
    [where st = no_timers and status = 200 and statusText = "''OK''" and body = "Inr ()"
       and p = "()"
       and e = "\<lparr>cls = TypeError, name = ''TypeError'', message = ''fetch failed'',
                  statusCode = None\<rparr>"]
  note syntax_error = fetchWithTimeout_classifies
    [where st = no_timers and status = 200 and statusText = "''OK''" and body = "Inr ()"
       and p = "()"
       and e = "\<lparr>cls = SyntaxError, name = ''SyntaxError'', message = ''Unexpected token'',
                  statusCode = None\<rparr>"]
  show ?thesis
    using server_error type_error syntax_error
    by (simp add: s503 new_Error_def instanceof_TypeError_def instanceof_Error_def)
qed

section \<open>The retry loop\<close>

text \<open>
  Three facts about the loop, each by induction on the retries left: when the first
  \<open>m\<close> attempts fail and the next one succeeds within the budget, the loop ends there;
  when every attempt fails, it ends after the last retry with that attempt's error; and
  a value it resolves with is the value of one of its attempts.
\<close>

lemma pRetry_loop_success_after:
  "m \<le> left \<Longrightarrow> (\<forall>k. n \<le> k \<and> k < n + m \<longrightarrow> isl (input k)) \<Longrightarrow> input (n + m) = Inr v \<Longrightarrow>
     outcome (pRetry_loop opts input n left) = Inr v
     \<and> attempts (pRetry_loop opts input n left) = n + m
     \<and> delays (pRetry_loop opts input n left) = map (retry_delay opts) [n..<n + m]"
proof (induction left arbitrary: n m)
  case 0
  then show ?case by simp
next
  case (Suc left)
  show ?case
  proof (cases m)
    case 0
    with Suc.prems show ?thesis by simp
  next
    case (Suc m')
    from Suc.prems Suc have fail: "isl (input n)" by simp
    then obtain e where e: "input n = Inl e" by (cases "input n") auto
    have "m' \<le> left" using Suc.prems Suc by simp
    moreover have "\<forall>k. Suc n \<le> k \<and> k < Suc n + m' \<longrightarrow> isl (input k)"
      using Suc.prems Suc by simp
    moreover have "input (Suc n + m') = Inr v" using Suc.prems Suc by simp
    ultimately have IH:
      "outcome (pRetry_loop opts input (Suc n) left) = Inr v
       \<and> attempts (pRetry_loop opts input (Suc n) left) = Suc n + m'
       \<and> delays (pRetry_loop opts input (Suc n) left) = map (retry_delay opts) [Suc n..<Suc n + m']"
      by (rule Suc.IH)
    show ?thesis using IH e Suc by (simp add: Let_def upt_conv_Cons del: upt_Suc)
  qed
qed

lemma pRetry_loop_all_fail:
  "(\<forall>k. n \<le> k \<and> k \<le> n + left \<longrightarrow> isl (input k)) \<Longrightarrow>
     outcome (pRetry_loop opts input n left) = input (n + left)
     \<and> attempts (pRetry_loop opts input n left) = n + left
     \<and> delays (pRetry_loop opts input n left) = map (retry_delay opts) [n..<n + left]"
proof (induction left arbitrary: n)
  case 0
  then show ?case by simp
next
  case (Suc left)
  from Suc.prems have "isl (input n)" by simp
  then obtain e where e: "input n = Inl e" by (cases "input n") auto
  have "\<forall>k. Suc n \<le> k \<and> k \<le> Suc n + left \<longrightarrow> isl (input k)"
    using Suc.prems by simp
  then have IH:
    "outcome (pRetry_loop opts input (Suc n) left) = input (Suc n + left)
     \<and> attempts (pRetry_loop opts input (Suc n) left) = Suc n + left
     \<and> delays (pRetry_loop opts input (Suc n) left) = map (retry_delay opts) [Suc n..<Suc n + left]"
    by (rule Suc.IH)
  show ?case using IH e by (simp add: Let_def upt_conv_Cons del: upt_Suc)
qed

lemma pRetry_loop_resolved:
  "outcome (pRetry_loop opts input n left) = Inr v \<Longrightarrow> \<exists>k. n \<le> k \<and> k \<le> n + left \<and> input k = Inr v"
proof (induction left arbitrary: n)
  case 0
  then show ?case by auto
next
  case (Suc left)
  show ?case
  proof (cases "input n")
    case (Inl e)
    with Suc.prems have "outcome (pRetry_loop opts input (Suc n) left) = Inr v"
      by (simp add: Let_def)
    then obtain k where "Suc n \<le> k \<and> k \<le> Suc n + left \<and> input k = Inr v"
      using Suc.IH by blast
    then show ?thesis by (intro exI [of _ k]) simp
  next
    case (Inr w)
    with Suc.prems show ?thesis by (intro exI [of _ n]) simp
  qed
qed

lemma pRetry_loop_blind:
  "(\<forall>k. same_but_for_error (input k) (input' k)) \<Longrightarrow>
     attempts (pRetry_loop opts input n left) = attempts (pRetry_loop opts input' n left)
     \<and> delays (pRetry_loop opts input n left) = delays (pRetry_loop opts input' n left)
     \<and> same_but_for_error (outcome (pRetry_loop opts input n left))
                           (outcome (pRetry_loop opts input' n left))"
proof (induction left arbitrary: n)
  case 0
  then show ?case by simp
next
  case (Suc left)
  from Suc.prems have s: "same_but_for_error (input n) (input' n)" by simp
  show ?case
  proof (cases "input n")
    case (Inl e)
    with s obtain e' where e': "input' n = Inl e'"
      by (cases "input' n") (simp_all add: same_but_for_error_def)
    from Suc.IH [OF Suc.prems, of "Suc n"] Inl e' show ?thesis
      by (simp add: Let_def)
  next
    case (Inr v)
    with s have "input' n = Inr v"
      by (cases "input' n") (simp_all add: same_but_for_error_def)
    with Inr show ?thesis by (simp add: same_but_for_error_def)
  qed
qed

lemma geocode_unfold:
  "geocode svc addr options env =
     pRetry_loop
       \<lparr>retries = DefaultOptions.retryCount (merge_options (defaultOptions svc) options),
        factor = 2, minTimeout = 1000, maxTimeout = 10000,
        onFailedAttempt = Some attempt_warning\<rparr>
       (\<lambda>n. geocode_attempt addr (env n)) 1
       (DefaultOptions.retryCount (merge_options (defaultOptions svc) options))"
  by (simp add: geocode_def queue_add_def pRetry_def Let_def)

lemma reverseGeocode_unfold:
  "reverseGeocode svc render coords options env =
     pRetry_loop
       \<lparr>retries = DefaultOptions.retryCount (merge_options (defaultOptions svc) options),
        factor = 2, minTimeout = 1000, maxTimeout = 10000,
        onFailedAttempt = None\<rparr>
       (\<lambda>n. reverseGeocode_attempt render coords (env n)) 1
       (DefaultOptions.retryCount (merge_options (defaultOptions svc) options))"
  by (simp add: reverseGeocode_def queue_add_def pRetry_def Let_def)

lemma geocode_first_try:
  "geocode_attempt addr (env 1) = Inr v \<Longrightarrow> outcome (geocode svc addr options env) = Inr v"
  unfolding geocode_unfold
  using pRetry_loop_success_after [where m = 0 and n = 1 and input = "\<lambda>n. geocode_attempt addr (env n)"]
  by simp

lemma reverseGeocode_first_try:
  "reverseGeocode_attempt render coords (env 1) = Inr v
     \<Longrightarrow> outcome (reverseGeocode svc render coords options env) = Inr v"
  unfolding reverseGeocode_unfold
  using pRetry_loop_success_after
    [where m = 0 and n = 1 and input = "\<lambda>n. reverseGeocode_attempt render coords (env n)"]
  by simp

lemma geocode_same_failure:
  assumes "\<And>n. geocode_attempt addr (env n) = Inl e"
  shows "outcome (geocode svc addr options env) = Inl e"
proof -
  have "\<forall>k. 1 \<le> k \<and> k \<le> 1 + R \<longrightarrow> isl (geocode_attempt addr (env k))" for R
    by (simp add: assms)
  from pRetry_loop_all_fail [OF this]
  show ?thesis unfolding geocode_unfold by (simp add: assms)
qed

lemma reverseGeocode_same_failure:
  assumes "\<And>n. reverseGeocode_attempt render coords (env n) = Inl e"
  shows "outcome (reverseGeocode svc render coords options env) = Inl e"
proof -
  have "\<forall>k. 1 \<le> k \<and> k \<le> 1 + R \<longrightarrow> isl (reverseGeocode_attempt render coords (env k))" for R
    by (simp add: assms)
  from pRetry_loop_all_fail [OF this]
  show ?thesis unfolding reverseGeocode_unfold by (simp add: assms)
qed

text \<open>
  C2. With \<open>R\<close> retries configured, by the options of the call or else by the
  constructor, a \<^verbatim>\<open>geocode\<close> call whose attempts all fail makes \<open>R + 1\<close> attempts,
  waits \<open>min (1000 * 2 ^ (k - 1)) 10000\<close> milliseconds before retry \<open>k\<close> for
  \<open>k = 1, \<dots>, R\<close>, and rejects with the error of attempt \<open>R + 1\<close>. The loop is the
  model of \<^verbatim>\<open>pRetry\<close> given above.
\<close>

theorem geocode_exhausts_retries:
  assumes R: "DefaultOptions.retryCount (merge_options (defaultOptions svc) options) = R"
    and fails: "\<forall>k. 1 \<le> k \<and> k \<le> R + 1 \<longrightarrow> isl (geocode_attempt addr (env k))"
  shows "attempts (geocode svc addr options env) = R + 1
    \<and> delays (geocode svc addr options env) = map (\<lambda>k. min (1000 * 2 ^ (k - 1)) 10000) [1..<R + 1]
    \<and> outcome (geocode svc addr options env) = geocode_attempt addr (env (R + 1))
    \<and> isl (outcome (geocode svc addr options env))"
proof -
  let ?input = "\<lambda>n. geocode_attempt addr (env n)"
  have "\<forall>k. 1 \<le> k \<and> k \<le> 1 + R \<longrightarrow> isl (?input k)"
    using fails by simp
  from pRetry_loop_all_fail [OF this] fails
  show ?thesis
    unfolding geocode_unfold R by (simp add: retry_delay_def add.commute)
qed

theorem geocode_exhausts_retries_witness:
  "attempts (geocode (constructor no_options) ''Nowhere'' (opts_retry 5) (\<lambda>n. TimedOut)) = 6
   \<and> delays (geocode (constructor no_options) ''Nowhere'' (opts_retry 5) (\<lambda>n. TimedOut))
       = [1000, 2000, 4000, 8000, 10000]
   \<and> outcome (geocode (constructor no_options) ''Nowhere'' (opts_retry 5) (\<lambda>n. TimedOut))
       = Inl ((new_Error ''Request timeout during geocoding'') \<lparr>name := ''TimeoutError''\<rparr>)"
proof -
  have R: "DefaultOptions.retryCount
             (merge_options (defaultOptions (constructor no_options)) (opts_retry 5)) = 5"
    by (simp add: merge_options_def opts_retry_def)
  have att: "geocode_attempt ''Nowhere'' TimedOut
      = Inl ((new_Error ''Request timeout during geocoding'') \<lparr>name := ''TimeoutError''\<rparr>)"
    by (simp add: geocode_attempt_def fetchWithTimeout_outcome_def try_block_def catch_block_def
        AbortError_def instanceof_Error_def)
  have fails: "\<forall>k. 1 \<le> k \<and> k \<le> 5 + 1 \<longrightarrow> isl (geocode_attempt ''Nowhere'' ((\<lambda>n. TimedOut) k))"
    by (simp add: att)
  show ?thesis
    using geocode_exhausts_retries [OF R fails] by (simp add: att upt_rec)
qed

text \<open>
  C6. The loop retries whatever the error is. If the first \<open>m\<close> attempts of a
  \<^verbatim>\<open>geocode\<close> or \<^verbatim>\<open>reverseGeocode\<close> call fail, with any errors at all, and
  \<open>m\<close> does not exceed the retries configured, then attempt \<open>m + 1\<close> runs, and when
  it succeeds the call resolves with its value. And two calls whose attempts differ at
  most in their errors make the same number of attempts, wait the same delays and settle
  alike. No hypothesis mentions the kind of the errors; in particular
  \<^verbatim>\<open>isRetryable\<close> does not occur.
\<close>

theorem retry_regardless_of_error:
  fixes env env' :: "nat \<Rightarrow> NominatimResponse list option fetch_outcome"
    and renv renv' :: "nat \<Rightarrow> NominatimResponse option fetch_outcome"
  shows
  "(m \<le> DefaultOptions.retryCount (merge_options (defaultOptions svc) options)
      \<and> (\<forall>k. 1 \<le> k \<and> k \<le> m \<longrightarrow> isl (geocode_attempt addr (env k)))
      \<and> geocode_attempt addr (env (m + 1)) = Inr v
    \<longrightarrow> outcome (geocode svc addr options env) = Inr v
        \<and> attempts (geocode svc addr options env) = m + 1)
   \<and> (m \<le> DefaultOptions.retryCount (merge_options (defaultOptions svc) options)
      \<and> (\<forall>k. 1 \<le> k \<and> k \<le> m \<longrightarrow> isl (reverseGeocode_attempt render coords (renv k)))
      \<and> reverseGeocode_attempt render coords (renv (m + 1)) = Inr v
    \<longrightarrow> outcome (reverseGeocode svc render coords options renv) = Inr v
        \<and> attempts (reverseGeocode svc render coords options renv) = m + 1)
   \<and> ((\<forall>k. same_but_for_error (geocode_attempt addr (env k)) (geocode_attempt addr (env' k)))
    \<longrightarrow> attempts (geocode svc addr options env) = attempts (geocode svc addr options env')
        \<and> delays (geocode svc addr options env) = delays (geocode svc addr options env')
        \<and> same_but_for_error (outcome (geocode svc addr options env))
                              (outcome (geocode svc addr options env')))
   \<and> ((\<forall>k. same_but_for_error (reverseGeocode_attempt render coords (renv k))
                                (reverseGeocode_attempt render coords (renv' k)))
    \<longrightarrow> attempts (reverseGeocode svc render coords options renv)
          = attempts (reverseGeocode svc render coords options renv')
        \<and> delays (reverseGeocode svc render coords options renv)
          = delays (reverseGeocode svc render coords options renv')
        \<and> same_but_for_error (outcome (reverseGeocode svc render coords options renv))
                              (outcome (reverseGeocode svc render coords options renv')))"
proof -
  let ?R = "DefaultOptions.retryCount (merge_options (defaultOptions svc) options)"
  have g: "outcome (geocode svc addr options env) = Inr v
        \<and> attempts (geocode svc addr options env) = m + 1"
    if a: "m \<le> ?R \<and> (\<forall>k. 1 \<le> k \<and> k \<le> m \<longrightarrow> isl (geocode_attempt addr (env k)))
      \<and> geocode_attempt addr (env (m + 1)) = Inr v"
  proof -
    let ?input = "\<lambda>n. geocode_attempt addr (env n)"
    have 1: "m \<le> ?R" using a by simp
    have 2: "\<forall>k. 1 \<le> k \<and> k < 1 + m \<longrightarrow> isl (?input k)" using a by simp
    have 3: "?input (1 + m) = Inr v" using a by simp
    from pRetry_loop_success_after [OF 1 2 3] show ?thesis
      unfolding geocode_unfold by simp
  qed
  have r: "outcome (reverseGeocode svc render coords options renv) = Inr v
        \<and> attempts (reverseGeocode svc render coords options renv) = m + 1"
    if a: "m \<le> ?R
      \<and> (\<forall>k. 1 \<le> k \<and> k \<le> m \<longrightarrow> isl (reverseGeocode_attempt render coords (renv k)))
      \<and> reverseGeocode_attempt render coords (renv (m + 1)) = Inr v"
  proof -
    let ?input = "\<lambda>n. reverseGeocode_attempt render coords (renv n)"
    have 1: "m \<le> ?R" using a by simp
    have 2: "\<forall>k. 1 \<le> k \<and> k < 1 + m \<longrightarrow> isl (?input k)" using a by simp
    have 3: "?input (1 + m) = Inr v" using a by simp
    from pRetry_loop_success_after [OF 1 2 3] show ?thesis
      unfolding reverseGeocode_unfold by simp
  qed
  have gb: "attempts (geocode svc addr options env) = attempts (geocode svc addr options env')
        \<and> delays (geocode svc addr options env) = delays (geocode svc addr options env')
        \<and> same_but_for_error (outcome (geocode svc addr options env))
                              (outcome (geocode svc addr options env'))"
    if a: "\<forall>k. same_but_for_error (geocode_attempt addr (env k)) (geocode_attempt addr (env' k))"
    unfolding geocode_unfold
    by (rule pRetry_loop_blind
          [where input = "\<lambda>n. geocode_attempt addr (env n)"
             and input' = "\<lambda>n. geocode_attempt addr (env' n)", OF a])
  have rb: "attempts (reverseGeocode svc render coords options renv)
          = attempts (reverseGeocode svc render coords options renv')
        \<and> delays (reverseGeocode svc render coords options renv)
          = delays (reverseGeocode svc render coords options renv')
        \<and> same_but_for_error (outcome (reverseGeocode svc render coords options renv))
                              (outcome (reverseGeocode svc render coords options renv'))"
    if a: "\<forall>k. same_but_for_error (reverseGeocode_attempt render coords (renv k))
                                (reverseGeocode_attempt render coords (renv' k))"
    unfolding reverseGeocode_unfold
    by (rule pRetry_loop_blind
          [where input = "\<lambda>n. reverseGeocode_attempt render coords (renv n)"
             and input' = "\<lambda>n. reverseGeocode_attempt render coords (renv' n)", OF a])
  show ?thesis
    by (intro conjI; intro impI; erule g r gb rb)
qed

theorem retry_regardless_of_error_witness:
  "\<not> isRetryable GEOCODING_ERROR
   \<and> geocode_attempt ''Times Square'' (flaky_network 1) =
       Inl (new_BmltQueryError GEOCODING_ERROR ''No results found for address: Times Square'')
   \<and> outcome (geocode (constructor no_options) ''Times Square'' no_options flaky_network)
       = Inr times_square_result
   \<and> attempts (geocode (constructor no_options) ''Times Square'' no_options flaky_network) = 3
   \<and> outcome (reverseGeocode (constructor no_options) (\<lambda>x. []) origin no_options flaky_reverse)
       = Inr times_square_result
   \<and> attempts (reverseGeocode (constructor no_options) (\<lambda>x. []) origin no_options flaky_reverse) = 2
   \<and> attempts (geocode (constructor no_options) ''Times Square'' no_options timeout_network) = 3
   \<and> delays (geocode (constructor no_options) ''Times Square'' no_options flaky_network)
       = delays (geocode (constructor no_options) ''Times Square'' no_options timeout_network)
   \<and> attempts (reverseGeocode (constructor no_options) (\<lambda>x. []) origin no_options timeout_reverse) = 2"
proof -
  let ?svc = "constructor no_options"
  have R: "DefaultOptions.retryCount (merge_options (defaultOptions ?svc) no_options) = 3"
    by (simp add: merge_options_def no_options_def constructor_def)
  have a1: "geocode_attempt ''Times Square'' (flaky_network 1) =
       Inl (new_BmltQueryError GEOCODING_ERROR ''No results found for address: Times Square'')"
    by (simp add: flaky_network_def geocode_attempt_def transport_defs)
  have a2: "isl (geocode_attempt ''Times Square'' (flaky_network 2))"
    by (simp add: flaky_network_def geocode_attempt_def transport_defs)
  have a3: "geocode_attempt ''Times Square'' (flaky_network (2 + 1)) = Inr times_square_result"
    by (simp add: flaky_network_def geocode_attempt_times_square)
  have fails: "\<forall>k. 1 \<le> k \<and> k \<le> 2 \<longrightarrow> isl (geocode_attempt ''Times Square'' (flaky_network k))"
  proof (intro allI impI)
    fix k :: nat assume "1 \<le> k \<and> k \<le> 2"
    then have "k = 1 \<or> k = 2" by arith
    then show "isl (geocode_attempt ''Times Square'' (flaky_network k))"
      using a1 a2 by auto
  qed
  have r1: "isl (reverseGeocode_attempt (\<lambda>x. []) origin (flaky_reverse 1))"
    by (simp add: flaky_reverse_def reverseGeocode_attempt_def transport_defs)
  have r2: "reverseGeocode_attempt (\<lambda>x. []) origin (flaky_reverse (1 + 1)) = Inr times_square_result"
    by (simp add: flaky_reverse_def reverseGeocode_attempt_def transport_defs times_square_def
        times_square_result_def parse_times_square build_result_def)
  have rfails: "\<forall>k. 1 \<le> k \<and> k \<le> 1 \<longrightarrow> isl (reverseGeocode_attempt (\<lambda>x. []) origin (flaky_reverse k))"
  proof (intro allI impI)
    fix k :: nat assume "1 \<le> k \<and> k \<le> 1"
    then have "k = 1" by arith
    then show "isl (reverseGeocode_attempt (\<lambda>x. []) origin (flaky_reverse k))"
      using r1 by simp
  qed
  have same: "\<forall>k. same_but_for_error (geocode_attempt ''Times Square'' (flaky_network k))
                                       (geocode_attempt ''Times Square'' (timeout_network k))"
  proof
    fix k :: nat
    consider "k = 1" | "k = 2" | "k \<noteq> 1 \<and> k \<noteq> 2" by blast
    then show "same_but_for_error (geocode_attempt ''Times Square'' (flaky_network k))
                                  (geocode_attempt ''Times Square'' (timeout_network k))"
    proof cases
      case 1
      then show ?thesis
        by (simp add: flaky_network_def timeout_network_def geocode_attempt_def transport_defs
            same_but_for_error_def)
    next
      case 2
      then show ?thesis
        by (simp add: flaky_network_def timeout_network_def geocode_attempt_def transport_defs
            same_but_for_error_def)
    next
      case 3
      then show ?thesis
        by (simp add: flaky_network_def timeout_network_def geocode_attempt_times_square
            same_but_for_error_def)
    qed
  qed
  have rsame: "\<forall>k. same_but_for_error
                     (reverseGeocode_attempt (\<lambda>x. []) origin (flaky_reverse k))
                     (reverseGeocode_attempt (\<lambda>x. []) origin (timeout_reverse k))"
  proof
    fix k :: nat
    show "same_but_for_error (reverseGeocode_attempt (\<lambda>x. []) origin (flaky_reverse k))
                             (reverseGeocode_attempt (\<lambda>x. []) origin (timeout_reverse k))"
      by (cases "k = 1")
        (simp_all add: flaky_reverse_def timeout_reverse_def reverseGeocode_attempt_def
          transport_defs same_but_for_error_def)
  qed
  note tg = retry_regardless_of_error
      [where m = 2 and svc = ?svc and options = no_options
         and addr = "''Times Square''" and env = flaky_network and env' = timeout_network
         and v = times_square_result]
  note tr = retry_regardless_of_error
      [where m = 1 and svc = ?svc and options = no_options
         and render = "\<lambda>x. []" and coords = origin and renv = flaky_reverse
         and renv' = timeout_reverse and v = times_square_result]
  have g: "outcome (geocode ?svc ''Times Square'' no_options flaky_network) = Inr times_square_result
           \<and> attempts (geocode ?svc ''Times Square'' no_options flaky_network) = 2 + 1"
    using tg [THEN conjunct1] R fails a3 by simp
  have r: "outcome (reverseGeocode ?svc (\<lambda>x. []) origin no_options flaky_reverse)
             = Inr times_square_result
           \<and> attempts (reverseGeocode ?svc (\<lambda>x. []) origin no_options flaky_reverse) = 1 + 1"
    using tr [THEN conjunct2, THEN conjunct1] R rfails r2 by simp
  note gb = tg [THEN conjunct2, THEN conjunct2, THEN conjunct1, THEN mp, OF same]
  note rb = tr [THEN conjunct2, THEN conjunct2, THEN conjunct2, THEN mp, OF rsame]
  show ?thesis using g r gb rb a1 by (simp add: isRetryable_def)
qed

text \<open>
  C4. An attempt of \<^verbatim>\<open>geocode\<close> that receives an empty or absent collection
  fails with a \<^verbatim>\<open>BmltQueryError\<close> of type \<^verbatim>\<open>GEOCODING_ERROR\<close> whose message
  is ``No results found for address: '' followed by the address, and a call whose every
  attempt does so rejects with that error. An attempt of \<^verbatim>\<open>reverseGeocode\<close> that
  receives no payload fails with an error named \<^verbatim>\<open>GeocodingError\<close>, and a call
  whose every attempt does so rejects with that error.
\<close>

theorem no_results_rejects:
  fixes ev :: "NominatimResponse list option fetch_outcome"
    and env :: "nat \<Rightarrow> NominatimResponse list option fetch_outcome"
    and rev :: "NominatimResponse option fetch_outcome"
    and renv :: "nat \<Rightarrow> NominatimResponse option fetch_outcome"
  shows
  "(fetchWithTimeout_outcome ev = Inr None \<or> fetchWithTimeout_outcome ev = Inr (Some [])
     \<longrightarrow> geocode_attempt addr ev =
           Inl (new_BmltQueryError GEOCODING_ERROR (''No results found for address: '' @ addr)))
   \<and> ((\<forall>n. fetchWithTimeout_outcome (env n) = Inr None
          \<or> fetchWithTimeout_outcome (env n) = Inr (Some []))
     \<longrightarrow> outcome (geocode svc addr options env) =
           Inl (new_BmltQueryError GEOCODING_ERROR (''No results found for address: '' @ addr)))
   \<and> (fetchWithTimeout_outcome rev = Inr None
     \<longrightarrow> reverseGeocode_attempt render coords rev =
           Inl ((new_Error (''No results found for coordinates: '' @ render (latitude coords)
                              @ '', '' @ render (longitude coords)))
                  \<lparr>name := ''GeocodingError''\<rparr>))
   \<and> ((\<forall>n. fetchWithTimeout_outcome (renv n) = Inr None)
     \<longrightarrow> outcome (reverseGeocode svc render coords options renv) =
           Inl ((new_Error (''No results found for coordinates: '' @ render (latitude coords)
                              @ '', '' @ render (longitude coords)))
                  \<lparr>name := ''GeocodingError''\<rparr>))"
proof (intro conjI impI)
  assume "fetchWithTimeout_outcome ev = Inr None \<or> fetchWithTimeout_outcome ev = Inr (Some [])"
  then show "geocode_attempt addr ev =
      Inl (new_BmltQueryError GEOCODING_ERROR (''No results found for address: '' @ addr))"
    by (auto simp: geocode_attempt_def)
next
  assume a: "\<forall>n. fetchWithTimeout_outcome (env n) = Inr None
          \<or> fetchWithTimeout_outcome (env n) = Inr (Some [])"
  have "geocode_attempt addr (env n) =
      Inl (new_BmltQueryError GEOCODING_ERROR (''No results found for address: '' @ addr))" for n
    using a [rule_format, of n] by (auto simp: geocode_attempt_def)
  then show "outcome (geocode svc addr options env) =
      Inl (new_BmltQueryError GEOCODING_ERROR (''No results found for address: '' @ addr))"
    by (rule geocode_same_failure)
next
  assume "fetchWithTimeout_outcome rev = Inr None"
  then show "reverseGeocode_attempt render coords rev =
      Inl ((new_Error (''No results found for coordinates: '' @ render (latitude coords)
                         @ '', '' @ render (longitude coords)))
             \<lparr>name := ''GeocodingError''\<rparr>)"
    by (simp add: reverseGeocode_attempt_def)
next
  assume a: "\<forall>n. fetchWithTimeout_outcome (renv n) = Inr None"
  have "reverseGeocode_attempt render coords (renv n) =
      Inl ((new_Error (''No results found for coordinates: '' @ render (latitude coords)
                         @ '', '' @ render (longitude coords)))
             \<lparr>name := ''GeocodingError''\<rparr>)" for n
    using a [rule_format, of n] by (simp add: reverseGeocode_attempt_def)
  then show "outcome (reverseGeocode svc render coords options renv) =
      Inl ((new_Error (''No results found for coordinates: '' @ render (latitude coords)
                         @ '', '' @ render (longitude coords)))
             \<lparr>name := ''GeocodingError''\<rparr>)"
    by (rule reverseGeocode_same_failure)
qed

theorem no_results_rejects_witness:
  "geocode_attempt ''Not A Real Address Anywhere'' (Responded 200 ''OK'' (Inr None)) =
     Inl (new_BmltQueryError GEOCODING_ERROR
            ''No results found for address: Not A Real Address Anywhere'')
   \<and> outcome (geocode (constructor no_options) ''Not A Real Address Anywhere'' no_options
              (\<lambda>n. Responded 200 ''OK'' (Inr (Some [])))) =
     Inl (new_BmltQueryError GEOCODING_ERROR
            ''No results found for address: Not A Real Address Anywhere'')
   \<and> reverseGeocode_attempt (\<lambda>x. ''0'') origin (Responded 200 ''OK'' (Inr None)) =
     Inl ((new_Error ''No results found for coordinates: 0, 0'') \<lparr>name := ''GeocodingError''\<rparr>)
   \<and> outcome (reverseGeocode (constructor no_options) (\<lambda>x. ''0'') origin no_options
              (\<lambda>n. Responded 200 ''OK'' (Inr None))) =
     Inl ((new_Error ''No results found for coordinates: 0, 0'') \<lparr>name := ''GeocodingError''\<rparr>)"
proof -
  have absent: "fetchWithTimeout_outcome
      (Responded 200 ''OK'' (Inr None) :: NominatimResponse list option fetch_outcome) = Inr None
    \<or> fetchWithTimeout_outcome
      (Responded 200 ''OK'' (Inr None) :: NominatimResponse list option fetch_outcome)
        = Inr (Some [])"
    by (simp add: transport_defs)
  have empty: "\<forall>n. fetchWithTimeout_outcome
        ((\<lambda>n. Responded 200 ''OK'' (Inr (Some []))) n
           :: NominatimResponse list option fetch_outcome) = Inr None
      \<or> fetchWithTimeout_outcome
        ((\<lambda>n. Responded 200 ''OK'' (Inr (Some []))) n
           :: NominatimResponse list option fetch_outcome) = Inr (Some [])"
    by (simp add: transport_defs)
  have rabsent: "fetchWithTimeout_outcome
      (Responded 200 ''OK'' (Inr None) :: NominatimResponse option fetch_outcome) = Inr None"
    by (simp add: transport_defs)
  have rempty: "\<forall>n. fetchWithTimeout_outcome
        ((\<lambda>n. Responded 200 ''OK'' (Inr None)) n :: NominatimResponse option fetch_outcome)
          = Inr None"
    by (simp add: transport_defs)
  note t = no_results_rejects
      [where ev = "Responded 200 ''OK'' (Inr None)"
         and env = "\<lambda>n. Responded 200 ''OK'' (Inr (Some []))"
         and rev = "Responded 200 ''OK'' (Inr None)"
         and renv = "\<lambda>n. Responded 200 ''OK'' (Inr None)"
         and svc = "constructor no_options" and options = no_options
         and addr = "''Not A Real Address Anywhere''" and render = "\<lambda>x. ''0''"
         and coords = origin]
  from t [THEN conjunct1, THEN mp, OF absent]
    t [THEN conjunct2, THEN conjunct1, THEN mp, OF empty]
    t [THEN conjunct2, THEN conjunct2, THEN conjunct1, THEN mp, OF rabsent]
    t [THEN conjunct2, THEN conjunct2, THEN conjunct2, THEN mp, OF rempty]
  show ?thesis by (simp add: origin_def)
qed

section \<open>Coordinates of a result\<close>

text \<open>
  A number that is not NaN and lies on neither side of two finite bounds is a finite
  number between them.
\<close>

lemma in_range:
  "\<not> isNaN x \<Longrightarrow> \<not> js_lt x (Fin lo) \<Longrightarrow> \<not> js_gt x (Fin hi) \<Longrightarrow> \<exists>r. x = Fin r \<and> lo \<le> r \<and> r \<le> hi"
  by (cases x) (auto simp: isNaN_def js_gt_def)

lemma geocode_attempt_payload:
  "fetchWithTimeout_outcome ev = Inr (Some (x # xs)) \<Longrightarrow>
   geocode_attempt addr ev =
     (if isNaN (parseFloat (lat x)) \<or> isNaN (parseFloat (lon x)) then
        Inl ((new_Error ''Invalid coordinates received from geocoding service'')
               \<lparr>name := ''GeocodingError''\<rparr>)
      else if js_lt (parseFloat (lat x)) (Fin (- 90)) \<or> js_gt (parseFloat (lat x)) (Fin 90)
              \<or> js_lt (parseFloat (lon x)) (Fin (- 180)) \<or> js_gt (parseFloat (lon x)) (Fin 180) then
        Inl ((new_Error ''Coordinates out of valid range'') \<lparr>name := ''GeocodingError''\<rparr>)
      else Inr (build_result
                  \<lparr>latitude = parseFloat (lat x), longitude = parseFloat (lon x)\<rparr> x))"
  by (simp add: geocode_attempt_def Let_def)

lemma geocode_attempt_resolved:
  assumes "geocode_attempt addr ev = Inr r"
  shows "\<exists>x xs. fetchWithTimeout_outcome ev = Inr (Some (x # xs))"
proof (cases "fetchWithTimeout_outcome ev")
  case (Inl e)
  with assms show ?thesis by (simp add: geocode_attempt_def)
next
  case (Inr response)
  show ?thesis
  proof (cases response)
    case None
    with Inr assms show ?thesis by (simp add: geocode_attempt_def)
  next
    case (Some places)
    with Inr assms show ?thesis by (cases places) (simp_all add: geocode_attempt_def)
  qed
qed

lemma geocode_attempt_coordinates:
  assumes "geocode_attempt addr ev = Inr r"
  shows "\<exists>la lo. coordinates r = \<lparr>latitude = Fin la, longitude = Fin lo\<rparr>
           \<and> - 90 \<le> la \<and> la \<le> 90 \<and> - 180 \<le> lo \<and> lo \<le> 180"
proof -
  from geocode_attempt_resolved [OF assms]
  obtain x xs where p: "fetchWithTimeout_outcome ev = Inr (Some (x # xs))" by blast
  let ?la = "parseFloat (lat x)" and ?lo = "parseFloat (lon x)"
  note eq = assms [unfolded geocode_attempt_payload [OF p]]
  have nan: "\<not> (isNaN ?la \<or> isNaN ?lo)"
    using eq by (rule contrapos_pn) simp
  have rng: "\<not> (js_lt ?la (Fin (- 90)) \<or> js_gt ?la (Fin 90)
              \<or> js_lt ?lo (Fin (- 180)) \<or> js_gt ?lo (Fin 180))"
    using eq nan by (rule_tac notI) (simp only: if_True if_False sum.distinct)
  have r: "r = build_result \<lparr>latitude = ?la, longitude = ?lo\<rparr> x"
    using eq nan rng by (simp only: if_False sum.inject)
  from nan rng in_range [of ?la "- 90" 90] obtain la where la: "?la = Fin la" "- 90 \<le> la" "la \<le> 90"
    by blast
  from nan rng in_range [of ?lo "- 180" 180] obtain lo where lo: "?lo = Fin lo" "- 180 \<le> lo" "lo \<le> 180"
    by blast
  show ?thesis unfolding r using la lo by (simp add: build_result_def)
qed

text \<open>
  Every result that \<^verbatim>\<open>geocode\<close> resolves with has a finite latitude between -90 and
  90 and a finite longitude between -180 and 180.
\<close>

theorem geocode_coordinates_valid:
  assumes "outcome (geocode svc addr options env) = Inr r"
  shows "\<exists>la lo. coordinates r = \<lparr>latitude = Fin la, longitude = Fin lo\<rparr>
           \<and> - 90 \<le> la \<and> la \<le> 90 \<and> - 180 \<le> lo \<and> lo \<le> 180"
proof -
  note run = assms [unfolded geocode_unfold]
  from pRetry_loop_resolved [OF run]
  obtain k where "geocode_attempt addr (env k) = Inr r" by (elim exE conjE)
  then show ?thesis by (rule geocode_attempt_coordinates)
qed

theorem geocode_coordinates_valid_witness:
  "outcome (geocode (constructor no_options) ''Times Square'' no_options flaky_network)
     = Inr times_square_result
   \<and> (\<exists>la lo. coordinates times_square_result = \<lparr>latitude = Fin la, longitude = Fin lo\<rparr>
          \<and> - 90 \<le> la \<and> la \<le> 90 \<and> - 180 \<le> lo \<and> lo \<le> 180)"
proof -
  have R: "DefaultOptions.retryCount
             (merge_options (defaultOptions (constructor no_options)) no_options) = 3"
    by (simp add: merge_options_def no_options_def constructor_def)
  have 1: "2 \<le> DefaultOptions.retryCount
             (merge_options (defaultOptions (constructor no_options)) no_options)"
    unfolding R by simp
  have 2: "\<forall>k. 1 \<le> k \<and> k < 1 + 2 \<longrightarrow> isl (geocode_attempt ''Times Square'' (flaky_network k))"
  proof (intro allI impI)
    fix k :: nat assume "1 \<le> k \<and> k < 1 + 2"
    then have "k = 1 \<or> k = 2" by arith
    then show "isl (geocode_attempt ''Times Square'' (flaky_network k))"
      by (auto simp: flaky_network_def geocode_attempt_def transport_defs)
  qed
  have 3: "geocode_attempt ''Times Square'' (flaky_network (1 + 2)) = Inr times_square_result"
    by (simp add: flaky_network_def geocode_attempt_times_square)
  have run: "outcome (geocode (constructor no_options) ''Times Square'' no_options flaky_network)
     = Inr times_square_result"
    unfolding geocode_unfold
    using pRetry_loop_success_after
      [where input = "\<lambda>n. geocode_attempt ''Times Square'' (flaky_network n)", OF 1 2 3]
    by simp
  from run geocode_coordinates_valid [OF run] show ?thesis by simp
qed

text \<open>
  C1. \<^verbatim>\<open>reverseGeocode\<close> does not check the coordinates it parses. For a place with
  latitude ``95'' and longitude ``not-a-number'' it resolves, with latitude 95 and
  longitude NaN; \<^verbatim>\<open>geocode\<close> rejects the same place with an error named
  \<^verbatim>\<open>GeocodingError\<close>.
\<close>

theorem reverseGeocode_returns_unvalidated:
  "outcome (reverseGeocode (constructor no_options) (\<lambda>x. []) origin no_options
              (\<lambda>n. Responded 200 ''OK'' (Inr (Some off_the_map))))
     = Inr \<lparr>coordinates = \<lparr>latitude = Fin 95, longitude = NaN\<rparr>,
            display_name = ''Nowhere'', confidence = None, address = None\<rparr>
   \<and> outcome (geocode (constructor no_options) ''Nowhere'' no_options
              (\<lambda>n. Responded 200 ''OK'' (Inr (Some [off_the_map]))))
     = Inl ((new_Error ''Invalid coordinates received from geocoding service'')
              \<lparr>name := ''GeocodingError''\<rparr>)"
proof
  show "outcome (reverseGeocode (constructor no_options) (\<lambda>x. []) origin no_options
              (\<lambda>n. Responded 200 ''OK'' (Inr (Some off_the_map))))
     = Inr \<lparr>coordinates = \<lparr>latitude = Fin 95, longitude = NaN\<rparr>,
            display_name = ''Nowhere'', confidence = None, address = None\<rparr>"
    by (rule reverseGeocode_first_try)
      (simp add: reverseGeocode_attempt_def transport_defs off_the_map_def parse_off_the_map
        build_result_def)
  show "outcome (geocode (constructor no_options) ''Nowhere'' no_options
              (\<lambda>n. Responded 200 ''OK'' (Inr (Some [off_the_map]))))
     = Inl ((new_Error ''Invalid coordinates received from geocoding service'')
              \<lparr>name := ''GeocodingError''\<rparr>)"
    by (rule geocode_same_failure)
      (simp add: geocode_attempt_def transport_defs off_the_map_def parse_off_the_map isNaN_def)
qed

section \<open>Normalising a search payload\<close>

text \<open>
  C8, as stated, fails: a city that is present but empty is passed over. For the place
  \<open>springfield\<close>, whose city is the empty string and whose town is Springfield, the
  result's city is Springfield, where the claim's wording gives the empty string.
\<close>

theorem city_when_present_counterexample:
  "geocode_attempt ''Springfield'' (Responded 200 ''OK'' (Inr (Some [springfield])))
      = Inr springfield_result
   \<and> NominatimResponse.address springfield = Some springfield_address
   \<and> map_option GeocodeAddress.city (GeocodeResult.address springfield_result)
       = Some (Some ''Springfield'')
   \<and> city_as_claimed springfield_address = Some []"
  by (simp add: geocode_attempt_def transport_defs springfield_def springfield_address_def
      springfield_result_def parse_springfield isNaN_def js_gt_def build_result_def
      map_address_def js_or_def truthy_def city_as_claimed_def)

text \<open>
  C8, amended. For a non-empty search payload an attempt of \<^verbatim>\<open>geocode\<close> settles as it
  would if the payload held element 0 alone; a result it resolves with has the parsed
  coordinates, the display name and the importance of element 0; and when element 0 has
  an address, the result's city is the provider's city when that is present and not
  empty, otherwise the town when that is present and not empty, otherwise the village.
\<close>

theorem geocode_attempt_first_element:
  "fetchWithTimeout_outcome ev = Inr (Some (x # xs)) \<longrightarrow>
     geocode_attempt addr ev = geocode_attempt addr (Responded 200 ''OK'' (Inr (Some [x])))
     \<and> (\<forall>r. geocode_attempt addr ev = Inr r \<longrightarrow>
           coordinates r = \<lparr>latitude = parseFloat (lat x), longitude = parseFloat (lon x)\<rparr>
           \<and> GeocodeResult.display_name r = NominatimResponse.display_name x
           \<and> confidence r = importance x
           \<and> (\<forall>a. NominatimResponse.address x = Some a \<longrightarrow>
                 map_option GeocodeAddress.city (GeocodeResult.address r) =
                   Some (if NominatimAddress.city a \<noteq> None \<and> NominatimAddress.city a \<noteq> Some []
                           then NominatimAddress.city a
                         else if town a \<noteq> None \<and> town a \<noteq> Some [] then town a
                         else village a)))"
proof (intro impI conjI allI)
  assume p: "fetchWithTimeout_outcome ev = Inr (Some (x # xs))"
  have single: "fetchWithTimeout_outcome
      (Responded 200 ''OK'' (Inr (Some [x])) :: NominatimResponse list option fetch_outcome)
        = Inr (Some (x # []))"
    by (simp add: fetchWithTimeout_outcome_def try_block_def ok_def)
  show "geocode_attempt addr ev = geocode_attempt addr (Responded 200 ''OK'' (Inr (Some [x])))"
    by (simp only: geocode_attempt_payload [OF p] geocode_attempt_payload [OF single])
  fix r
  assume "geocode_attempt addr ev = Inr r"
  then have r: "r = build_result
       \<lparr>latitude = parseFloat (lat x), longitude = parseFloat (lon x)\<rparr> x"
    unfolding geocode_attempt_payload [OF p] by (simp split: if_splits)
  show "coordinates r = \<lparr>latitude = parseFloat (lat x), longitude = parseFloat (lon x)\<rparr>"
    by (simp add: r build_result_def)
  show "GeocodeResult.display_name r = NominatimResponse.display_name x"
    by (simp add: r build_result_def)
  show "confidence r = importance x"
    by (simp add: r build_result_def)
  fix a
  assume "NominatimResponse.address x = Some a"
  then show "map_option GeocodeAddress.city (GeocodeResult.address r) =
      Some (if NominatimAddress.city a \<noteq> None \<and> NominatimAddress.city a \<noteq> Some []
              then NominatimAddress.city a
            else if town a \<noteq> None \<and> town a \<noteq> Some [] then town a
            else village a)"
    by (auto simp: r build_result_def map_address_def js_or_def truthy_def split: option.splits)
qed

theorem geocode_attempt_first_element_witness:
  "geocode_attempt ''Springfield''
       (Responded 200 ''OK'' (Inr (Some [springfield, times_square])))
     = geocode_attempt ''Springfield'' (Responded 200 ''OK'' (Inr (Some [springfield])))
   \<and> geocode_attempt ''Springfield''
       (Responded 200 ''OK'' (Inr (Some [springfield, times_square]))) = Inr springfield_result
   \<and> map_option GeocodeAddress.city (GeocodeResult.address springfield_result)
       = Some (Some ''Springfield'')"
proof -
  let ?ev = "Responded 200 ''OK'' (Inr (Some [springfield, times_square]))
               :: NominatimResponse list option fetch_outcome"
  have p: "fetchWithTimeout_outcome ?ev = Inr (Some (springfield # [times_square]))"
    by (simp add: fetchWithTimeout_outcome_def try_block_def ok_def)
  have r: "geocode_attempt ''Springfield'' ?ev = Inr springfield_result"
    by (simp add: geocode_attempt_def transport_defs springfield_def springfield_address_def
        springfield_result_def parse_springfield isNaN_def js_gt_def build_result_def
        map_address_def js_or_def truthy_def)
  have a: "NominatimResponse.address springfield = Some springfield_address"
    by (simp add: springfield_def)
  note t = geocode_attempt_first_element
    [where ev = ?ev and x = springfield and xs = "[times_square]" and addr = "''Springfield''",
     THEN mp, OF p]
  from t [THEN conjunct1] t [THEN conjunct2, THEN spec, THEN mp, OF r]
  show ?thesis using r a by (simp add: springfield_address_def)
qed

section \<open>Batches\<close>

lemma Promise_all_resolved: "Promise_all (map Inr xs) = Inr xs"
  by (induction xs) simp_all

lemma fst_catch_null:
  "fst (catch_null a r) = Inr (case outcome r of Inl e \<Rightarrow> None | Inr v \<Rightarrow> Some v)"
  by (simp add: catch_null_def split: sum.split)

lemma drop_nulls:
  "map the (filter (\<lambda>result. result \<noteq> None)
      (map (\<lambda>x. case x of Inl e \<Rightarrow> None | Inr v \<Rightarrow> Some v) os))
   = map projr (filter (\<lambda>x. \<not> isl x) os)"
  by (induction os) (auto split: sum.split)

lemma batchGeocode_results:
  "fst (batchGeocode svc addresses options env)
     = Inr (map projr (filter (\<lambda>x. \<not> isl x) (settled_calls svc addresses options env)))"
proof -
  let ?calls = "map (\<lambda>(i, a). geocode svc a options (env i)) (enumerate 0 addresses)"
  have promises:
    "map fst (map (\<lambda>(i, a). catch_null a (geocode svc a options (env i))) (enumerate 0 addresses))
       = map Inr (map (\<lambda>x. case x of Inl e \<Rightarrow> None | Inr v \<Rightarrow> Some v)
                    (settled_calls svc addresses options env))"
    by (simp add: settled_calls_def fst_catch_null split_def comp_def)
  show ?thesis
    unfolding batchGeocode_def Let_def fst_conv promises Promise_all_resolved
    by (simp only: sum.case drop_nulls)
qed

lemma batchGeocode_console:
  assumes "i < length addresses"
    and "outcome (geocode svc (addresses ! i) options (env i)) = Inl e"
  shows "failure_warning (addresses ! i) e \<in> set (snd (batchGeocode svc addresses options env))"
proof -
  have "(i, addresses ! i) \<in> set (enumerate 0 addresses)"
    using assms(1) by (simp add: in_set_enumerate_eq)
  moreover have "failure_warning (addresses ! i) e
      \<in> set (snd (catch_null (addresses ! i) (geocode svc (addresses ! i) options (env i))))"
    using assms(2) by (simp add: catch_null_def)
  ultimately show ?thesis
    by (force simp: batchGeocode_def Let_def)
qed

text \<open>
  C10. \<^verbatim>\<open>batchGeocode\<close> resolves with the results of the calls that succeeded, in the
  order of their addresses: the list of the outcomes of the calls, taken in the order of
  the input, with the failures deleted. So the results, as returned, are a subsequence of
  the outcomes of the calls.
\<close>

theorem batchGeocode_keeps_order:
  "fst (batchGeocode svc addresses options env)
     = Inr (map projr (filter (\<lambda>x. \<not> isl x) (settled_calls svc addresses options env)))
   \<and> subseq
        (map Inr (map projr (filter (\<lambda>x. \<not> isl x) (settled_calls svc addresses options env))))
        (settled_calls svc addresses options env)"
proof
  show "fst (batchGeocode svc addresses options env)
     = Inr (map projr (filter (\<lambda>x. \<not> isl x) (settled_calls svc addresses options env)))"
    by (rule batchGeocode_results)
  have "map Inr (map projr (filter (\<lambda>x. \<not> isl x) os)) = filter (\<lambda>x. \<not> isl x) os"
    for os :: "(js_error + GeocodeResult) list"
    by (induction os) (auto simp: isl_def)
  then show "subseq
        (map Inr (map projr (filter (\<lambda>x. \<not> isl x) (settled_calls svc addresses options env))))
        (settled_calls svc addresses options env)"
    by simp
qed

text \<open>
  C5. \<^verbatim>\<open>batchGeocode\<close> resolves for every list of addresses, whatever the individual
  calls do. The results it resolves with are, counted with multiplicity, the results of
  the calls that succeeded; and for every call that was rejected, the warning that names
  the address and the error's message is on the console.
\<close>

theorem batchGeocode_absorbs_failures:
  "(\<exists>rs. fst (batchGeocode svc addresses options env) = Inr rs
         \<and> mset rs = image_mset projr
                        (filter_mset (\<lambda>x. \<not> isl x) (mset (settled_calls svc addresses options env))))
   \<and> (\<forall>i e. i < length addresses
           \<and> outcome (geocode svc (addresses ! i) options (env i)) = Inl e
         \<longrightarrow> failure_warning (addresses ! i) e
               \<in> set (snd (batchGeocode svc addresses options env)))"
proof (intro conjI allI impI)
  show "\<exists>rs. fst (batchGeocode svc addresses options env) = Inr rs
         \<and> mset rs = image_mset projr
                        (filter_mset (\<lambda>x. \<not> isl x) (mset (settled_calls svc addresses options env)))"
    unfolding batchGeocode_results by simp
next
  fix i e
  assume "i < length addresses \<and> outcome (geocode svc (addresses ! i) options (env i)) = Inl e"
  then show "failure_warning (addresses ! i) e \<in> set (snd (batchGeocode svc addresses options env))"
    using batchGeocode_console by blast
qed

theorem batchGeocode_absorbs_failures_witness:
  "fst (batchGeocode (constructor no_options)
          [''Times Square, New York, NY'', ''Not A Real Address Anywhere''] no_options
          batch_network)
     = Inr [times_square_result]
   \<and> failure_warning ''Not A Real Address Anywhere''
         (new_BmltQueryError GEOCODING_ERROR
            ''No results found for address: Not A Real Address Anywhere'')
       \<in> set (snd (batchGeocode (constructor no_options)
                     [''Times Square, New York, NY'', ''Not A Real Address Anywhere'']
                     no_options batch_network))"
proof -
  let ?svc = "constructor no_options"
  let ?a = "''Times Square, New York, NY''" and ?b = "''Not A Real Address Anywhere''"
  let ?e = "new_BmltQueryError GEOCODING_ERROR
              ''No results found for address: Not A Real Address Anywhere''"
  have o0: "outcome (geocode ?svc ?a no_options (batch_network 0)) = Inr times_square_result"
    by (rule geocode_first_try) (simp add: batch_network_def geocode_attempt_times_square)
  have o1: "outcome (geocode ?svc ?b no_options (batch_network 1)) = Inl ?e"
    by (rule geocode_same_failure) (simp add: batch_network_def geocode_attempt_empty)
  have calls: "settled_calls ?svc [?a, ?b] no_options batch_network
                 = [Inr times_square_result, Inl ?e]"
    using o0 o1 by (simp add: settled_calls_def)
  note t = batchGeocode_absorbs_failures
    [where svc = ?svc and addresses = "[?a, ?b]" and options = no_options
       and env = batch_network]
  from t [THEN conjunct1] obtain rs where
    rs: "fst (batchGeocode ?svc [?a, ?b] no_options batch_network) = Inr rs"
    and m: "mset rs = image_mset projr
              (filter_mset (\<lambda>x. \<not> isl x) (mset (settled_calls ?svc [?a, ?b] no_options batch_network)))"
    by (elim exE conjE)
  from m have "rs = [times_square_result]"
    unfolding calls by simp
  moreover have "failure_warning ?b ?e
      \<in> set (snd (batchGeocode ?svc [?a, ?b] no_options batch_network))"
    using t [THEN conjunct2, THEN spec, THEN spec, THEN mp, of 1 ?e] o1 by simp
  ultimately show ?thesis using rs by simp
qed

end
